theory Spec2Isabelle
  imports Main
begin

section \<open>JavaScript values, exceptions and HTTP messages\<close>

text \<open>
  The values that cross the boundary between \<^verbatim>\<open>src/App.jsx\<close> and the backend are JSON
  values; \<open>JUndefined\<close> is added because the code reads missing properties.
\<close>

datatype js =
    JUndefined
  | JNull
  | JBool bool
  | JNum int
  | JStr string
  | JArr "js list"
  | JObj "(string \<times> js) list"

text \<open>JavaScript truthiness, as used by \<^verbatim>\<open>body ? ... : undefined\<close>.\<close>

fun truthy :: "js \<Rightarrow> bool" where
  "truthy JUndefined = False"
| "truthy JNull = False"
| "truthy (JBool b) = b"
| "truthy (JNum n) = (n \<noteq> 0)"
| "truthy (JStr s) = (s \<noteq> [])"
| "truthy (JArr xs) = True"
| "truthy (JObj fs) = True"

text \<open>Whatever can be thrown: the \<^verbatim>\<open>Error\<close> that \<^verbatim>\<open>api\<close> constructs, and the platform's own.\<close>

datatype exn =
    Error string
  | TypeError string
  | SyntaxError string
  | DOMException string

text \<open>
  A response as \<^verbatim>\<open>api\<close> reads it: \<^verbatim>\<open>res.ok\<close>, \<^verbatim>\<open>res.status\<close>,
  \<^verbatim>\<open>res.headers.get("content-type")\<close> (\<open>None\<close> is \<^verbatim>\<open>null\<close>), \<^verbatim>\<open>res.text()\<close> and
  \<^verbatim>\<open>res.json()\<close> (\<open>None\<close> when the body is not JSON: the promise rejects).
\<close>

record response =
  res_ok :: bool
  res_status :: nat
  res_content_type :: "string option"
  res_text :: string
  res_json :: "js option"

text \<open>The second argument of \<^verbatim>\<open>api\<close>; \<open>None\<close> is a property left out.\<close>

datatype body = FormData "(string \<times> string) list" | Plain js

record api_opts =
  opt_method :: "string option"
  opt_body :: "body option"
  opt_token :: "string option"
  opt_headers :: "(string \<times> string option) list"

text \<open>What is handed to \<^verbatim>\<open>fetch\<close>. \<open>Json v\<close> stands for \<^verbatim>\<open>JSON.stringify(v)\<close>.\<close>

datatype payload = Form "(string \<times> string) list" | Json js

record fetch_request =
  req_url :: string
  req_method :: string
  req_headers :: "(string \<times> string option) list"
  req_body :: "payload option"
  req_credentials :: string

text \<open>What \<^verbatim>\<open>api\<close> resolves to: the response itself (CSV), parsed JSON, or the text.\<close>

datatype api_value = Response response | Value js

section \<open>The component, the page and the platform\<close>

record video_el =
  srcObject :: "nat option"
  videoWidth :: nat
  videoHeight :: nat

record canvas_el =
  width :: nat
  height :: nat

text \<open>Effects that leave the component, in the order they happen.\<close>

datatype event =
    GetUserMedia nat nat
  | Play
  | Fetch fetch_request
  | Timeout nat
  | TrackStop nat
  | Unhandled exn

text \<open>
  \<open>sessionId\<close>, \<open>status\<close>, \<open>result\<close>, \<open>streaming\<close> are the \<^verbatim>\<open>useState\<close> cells of
  \<^verbatim>\<open>AttendCapture\<close>; \<open>token\<close> comes from \<^verbatim>\<open>useAuth()\<close>; \<open>video\<close> and \<open>canvas\<close> are
  \<^verbatim>\<open>videoRef.current\<close> and \<^verbatim>\<open>canvasRef.current\<close>. \<open>cameras ! c\<close> tells whether the
  track of the media stream \<open>c\<close> handed out by the platform is still live (the
  constraints ask for video only, so a stream has one track).
\<close>

record component =
  sessionId :: js
  status :: string
  result :: api_value
  streaming :: bool
  token :: "string option"
  video :: "video_el option"
  canvas :: "canvas_el option"
  cameras :: "bool list"
  trace :: "event list"

text \<open>
  The outside world. Every external call is answered by the environment at the index
  \<open>length (trace s)\<close>, the number of effects that happened before it.
  \<open>snapshot_result\<close> is the outcome of \<^verbatim>\<open>getContext\<close>, \<^verbatim>\<open>drawImage\<close>,
  \<^verbatim>\<open>strokeRect\<close> and \<^verbatim>\<open>toDataURL\<close> together: the data URL, or what one of them threw.
  \<open>date_string v\<close> is \<^verbatim>\<open>new Date(v).toLocaleString()\<close>, which depends on the browser's
  locale and time zone.
\<close>

record env =
  api_base :: string
  media_result :: "nat \<Rightarrow> exn option"
  play_result :: "nat \<Rightarrow> exn option"
  fetch_result :: "nat \<Rightarrow> exn + response"
  snapshot_result :: "nat \<Rightarrow> exn + string"
  date_string :: "js \<Rightarrow> string"

section \<open>The API client\<close>

text \<open>\<^verbatim>\<open>String.prototype.includes\<close>.\<close>

fun starts_with :: "string \<Rightarrow> string \<Rightarrow> bool" where
  "starts_with s [] = True"
| "starts_with [] (c # cs) = False"
| "starts_with (d # ds) (c # cs) = (d = c \<and> starts_with ds cs)"

fun str_includes :: "string \<Rightarrow> string \<Rightarrow> bool" where
  "str_includes [] sub = (sub = [])"
| "str_includes (d # ds) sub = (starts_with (d # ds) sub \<or> str_includes ds sub)"

text \<open>A number in a template literal.\<close>

fun show_nat :: "nat \<Rightarrow> string" where
  "show_nat n =
     (if n < 10 then [''0123456789'' ! n]
      else show_nat (n div 10) @ [''0123456789'' ! (n mod 10)])"

text \<open>Setting a property of an object literal: a key already there keeps its place.\<close>

fun assign :: "string \<Rightarrow> 'v \<Rightarrow> (string \<times> 'v) list \<Rightarrow> (string \<times> 'v) list" where
  "assign k v [] = [(k, v)]"
| "assign k v ((k', v') # kvs) =
     (if k = k' then (k, v) # kvs else (k', v') # assign k v kvs)"

fun spread :: "(string \<times> 'v) list \<Rightarrow> (string \<times> 'v) list \<Rightarrow> (string \<times> 'v) list" where
  "spread obj [] = obj"
| "spread obj ((k, v) # kvs) = spread (assign k v obj) kvs"

definition is_form :: "body option \<Rightarrow> bool" where
  "is_form b = (case b of Some (FormData _) \<Rightarrow> True | _ \<Rightarrow> False)"

text \<open>Lines 38--47: the request that \<^verbatim>\<open>api\<close> passes to \<^verbatim>\<open>fetch\<close>.\<close>

definition api_request :: "env \<Rightarrow> string \<Rightarrow> api_opts \<Rightarrow> fetch_request" where
  "api_request e path opts =
     \<lparr> req_url = api_base e @ path,
       req_method = (case opt_method opts of None \<Rightarrow> ''GET'' | Some m \<Rightarrow> m),
       req_headers =
         spread
           (spread
              [(''Content-Type'',
                if is_form (opt_body opts) then None else Some ''application/json'')]
              (case opt_token opts of
                 None \<Rightarrow> []
               | Some t \<Rightarrow>
                   (if t \<noteq> [] then [(''Authorization'', Some (''Bearer '' @ t))] else [])))
           (opt_headers opts),
       req_body =
         (case opt_body opts of
            None \<Rightarrow> None
          | Some (FormData fd) \<Rightarrow> Some (Form fd)
          | Some (Plain v) \<Rightarrow> (if truthy v then Some (Json v) else None)),
       req_credentials = ''include'' \<rparr>"

text \<open>Lines 48--55: what \<^verbatim>\<open>api\<close> does with the response.\<close>

definition api_response :: "response \<Rightarrow> exn + api_value" where
  "api_response res =
     (if \<not> res_ok res then
        (let txt = res_text res in
         Inl (Error (if txt \<noteq> [] then txt
                     else ''Request failed: '' @ show_nat (res_status res))))
      else
        (let contentType = (case res_content_type res of None \<Rightarrow> [] | Some c \<Rightarrow> c) in
         if str_includes contentType ''text/csv'' then Inr (Response res)
         else if str_includes contentType ''application/json'' then
           (case res_json res of
              None \<Rightarrow> Inl (SyntaxError ''Unexpected token'')
            | Some v \<Rightarrow> Inr (Value v))
         else Inr (Value (JStr (res_text res)))))"

definition api :: "env \<Rightarrow> string \<Rightarrow> api_opts \<Rightarrow> component \<Rightarrow> (exn + api_value) \<times> component" where
  "api e path opts s =
     (let s1 = s\<lparr>trace := trace s @ [Fetch (api_request e path opts)]\<rparr> in
      case fetch_result e (length (trace s)) of
        Inl x \<Rightarrow> (Inl x, s1)
      | Inr res \<Rightarrow> (api_response res, s1))"

section \<open>AttendCapture\<close>

definition frames :: nat where
  "frames = 20"

text \<open>Lines 275--279; \<open>current_stream\<close> is \<^verbatim>\<open>videoRef.current?.srcObject\<close>.\<close>

definition current_stream :: "component \<Rightarrow> nat option" where
  "current_stream s = (case video s of None \<Rightarrow> None | Some v \<Rightarrow> srcObject v)"

definition stopStream :: "component \<Rightarrow> component" where
  "stopStream s =
     (let s1 = (case current_stream s of
                  None \<Rightarrow> s
                | Some c \<Rightarrow> s\<lparr>cameras := (cameras s)[c := False],
                              trace := trace s @ [TrackStop c]\<rparr>)
      in s1\<lparr>streaming := False\<rparr>)"

text \<open>
  Lines 312--328. The guide rectangle is drawn with floating-point coordinates and
  changes pixels only; its effect is part of \<open>snapshot_result\<close>.
\<close>

definition captureFrame :: "env \<Rightarrow> component \<Rightarrow> (exn + js) \<times> component" where
  "captureFrame e s =
     (case video s of
        None \<Rightarrow> (Inr JNull, s)
      | Some v \<Rightarrow>
          (case canvas s of
             None \<Rightarrow> (Inr JNull, s)
           | Some c \<Rightarrow>
               (let c1 = c\<lparr>width := (if videoWidth v \<noteq> 0 then videoWidth v else 640),
                            height := (if videoHeight v \<noteq> 0 then videoHeight v else 480)\<rparr>;
                    s1 = s\<lparr>canvas := Some c1\<rparr>
                in case snapshot_result e (length (trace s)) of
                     Inl x \<Rightarrow> (Inl x, s1)
                   | Inr d \<Rightarrow> (Inr (JStr d), s1))))"

text \<open>Lines 330--341.\<close>

definition complete_opts :: "string option \<Rightarrow> js \<Rightarrow> api_opts" where
  "complete_opts tok sid =
     \<lparr> opt_method = Some ''POST'',
       opt_body = Some (Plain (JObj [(''sessionId'', sid)])),
       opt_token = tok,
       opt_headers = [] \<rparr>"

definition completeSession :: "env \<Rightarrow> js \<Rightarrow> component \<Rightarrow> component" where
  "completeSession e sid s =
     (let s2 = (case api e ''/api/attendance/complete'' (complete_opts (token s) sid) s of
                  (Inr data, s1) \<Rightarrow> s1\<lparr>result := data, status := ''Completed''\<rparr>
                | (Inl x, s1) \<Rightarrow>
                    s1\<lparr>status := ''No face detected. You can use Manual Present.''\<rparr>)
      in (stopStream s2)\<lparr>sessionId := JNull\<rparr>)"

text \<open>Lines 300--310. The loop is \<open>stream_loop\<close>, started at \<open>i = 0\<close>.\<close>

definition frame_opts :: "string option \<Rightarrow> js \<Rightarrow> js \<Rightarrow> api_opts" where
  "frame_opts tok sid img =
     \<lparr> opt_method = Some ''POST'',
       opt_body = Some (Plain (JObj [(''sessionId'', sid), (''imageBase64'', img)])),
       opt_token = tok,
       opt_headers = [] \<rparr>"

definition setTimeout :: "nat \<Rightarrow> component \<Rightarrow> component" where
  "setTimeout ms s = s\<lparr>trace := trace s @ [Timeout ms]\<rparr>"

function stream_loop :: "env \<Rightarrow> js \<Rightarrow> nat \<Rightarrow> component \<Rightarrow> exn option \<times> component" where
  "stream_loop e sid i s =
     (if i < frames then
        (case captureFrame e s of
           (Inl x, s1) \<Rightarrow> (Some x, s1)
         | (Inr img, s1) \<Rightarrow>
             stream_loop e sid (i + 1)
               (setTimeout 100 (snd (api e ''/api/attendance/frame'' (frame_opts (token s1) sid img) s1))))
      else (None, s))"
  by pat_completeness auto
termination
  by (relation "measure (\<lambda>(e, sid, i, s). frames - i)") auto

definition streamFrames :: "env \<Rightarrow> js \<Rightarrow> component \<Rightarrow> exn option \<times> component" where
  "streamFrames e sid s =
     (case stream_loop e sid 0 s of
        (Some x, s1) \<Rightarrow> (Some x, s1)
      | (None, s1) \<Rightarrow> (None, completeSession e sid s1))"

text \<open>
  Lines 281--298. \<open>startSession_try\<close> is the body of the \<^verbatim>\<open>try\<close>; \<^verbatim>\<open>streamFrames\<close> is
  called without \<^verbatim>\<open>await\<close>, so what it throws is not caught here.
\<close>

definition start_opts :: "string option \<Rightarrow> api_opts" where
  "start_opts tok =
     \<lparr> opt_method = Some ''POST'', opt_body = None, opt_token = tok, opt_headers = [] \<rparr>"

definition getUserMedia :: "env \<Rightarrow> component \<Rightarrow> (exn + nat) \<times> component" where
  "getUserMedia e s =
     (let s1 = s\<lparr>trace := trace s @ [GetUserMedia 640 480]\<rparr> in
      case media_result e (length (trace s)) of
        Some x \<Rightarrow> (Inl x, s1)
      | None \<Rightarrow> (Inr (length (cameras s)), s1\<lparr>cameras := cameras s @ [True]\<rparr>))"

definition play :: "env \<Rightarrow> component \<Rightarrow> exn option \<times> component" where
  "play e s = (play_result e (length (trace s)), s\<lparr>trace := trace s @ [Play]\<rparr>)"

text \<open>\<^verbatim>\<open>const { sessionId } = ...\<close>: destructuring \<^verbatim>\<open>null\<close> throws.\<close>

fun lookup :: "string \<Rightarrow> (string \<times> js) list \<Rightarrow> js" where
  "lookup k [] = JUndefined"
| "lookup k ((k', v) # kvs) = (if k = k' then v else lookup k kvs)"

fun get_sessionId :: "api_value \<Rightarrow> exn + js" where
  "get_sessionId (Value JNull) = Inl (TypeError ''Cannot destructure property'')"
| "get_sessionId (Value JUndefined) = Inl (TypeError ''Cannot destructure property'')"
| "get_sessionId (Value (JObj fs)) = Inr (lookup ''sessionId'' fs)"
| "get_sessionId (Value v) = Inr JUndefined"
| "get_sessionId (Response res) = Inr JUndefined"

definition fire_and_forget :: "exn option \<times> component \<Rightarrow> component" where
  "fire_and_forget r =
     (case r of
        (None, s) \<Rightarrow> s
      | (Some x, s) \<Rightarrow> s\<lparr>trace := trace s @ [Unhandled x]\<rparr>)"

definition startSession_try :: "env \<Rightarrow> component \<Rightarrow> exn option \<times> component" where
  "startSession_try e s =
     (case getUserMedia e s of
        (Inl x, s1) \<Rightarrow> (Some x, s1)
      | (Inr media, s1) \<Rightarrow>
          (case (case video s1 of
                   None \<Rightarrow> (None, s1)
                 | Some v \<Rightarrow> play e (s1\<lparr>video := Some (v\<lparr>srcObject := Some media\<rparr>)\<rparr>)) of
             (Some x, s2) \<Rightarrow> (Some x, s2)
           | (None, s2) \<Rightarrow>
               (let s3 = s2\<lparr>streaming := True\<rparr> in
                case api e ''/api/attendance/start'' (start_opts (token s3)) s3 of
                  (Inl x, s4) \<Rightarrow> (Some x, s4)
                | (Inr v, s4) \<Rightarrow>
                    (case get_sessionId v of
                       Inl x \<Rightarrow> (Some x, s4)
                     | Inr sid \<Rightarrow>
                         (None,
                          fire_and_forget
                            (streamFrames e sid
                               (s4\<lparr>sessionId := sid, status := ''Streaming frames...''\<rparr>)))))))"

definition startSession :: "env \<Rightarrow> component \<Rightarrow> component" where
  "startSession e s =
     (case startSession_try e (s\<lparr>result := Value JNull, status := ''Starting session...''\<rparr>) of
        (None, s1) \<Rightarrow> s1
      | (Some x, s1) \<Rightarrow> s1\<lparr>status := ''Camera permission denied or unavailable''\<rparr>)"

text \<open>
  The first statements of the \<^verbatim>\<open>try\<close> (lines 285--289) on their own, to speak about the
  state in which the session-start request is sent.
\<close>

definition acquire :: "env \<Rightarrow> component \<Rightarrow> exn option \<times> component" where
  "acquire e s =
     (case getUserMedia e s of
        (Inl x, s1) \<Rightarrow> (Some x, s1)
      | (Inr media, s1) \<Rightarrow>
          (case video s1 of
             None \<Rightarrow> (None, s1)
           | Some v \<Rightarrow> play e (s1\<lparr>video := Some (v\<lparr>srcObject := Some media\<rparr>)\<rparr>)))"

text \<open>Lines 343--352.\<close>

definition manual_opts :: "string option \<Rightarrow> api_opts" where
  "manual_opts tok =
     \<lparr> opt_method = Some ''POST'',
       opt_body = Some (Plain (JObj [(''manual'', JBool True)])),
       opt_token = tok,
       opt_headers = [] \<rparr>"

definition manualPresent :: "env \<Rightarrow> component \<Rightarrow> component" where
  "manualPresent e s =
     (case api e ''/api/attendance/complete'' (manual_opts (token s))
             (s\<lparr>status := ''Recording manual presence...''\<rparr>) of
        (Inr data, s1) \<Rightarrow> s1\<lparr>result := data, status := ''Manual recorded''\<rparr>
      | (Inl x, s1) \<Rightarrow> s1\<lparr>status := ''Manual record failed''\<rparr>)"

text \<open>
  Lines 366--371: the start button is \<^verbatim>\<open>disabled={streaming}\<close>, the manual button is
  always enabled. Lines 266--269 and 362--363: the component as first rendered.
\<close>

definition click_start :: "env \<Rightarrow> component \<Rightarrow> component" where
  "click_start e s = (if streaming s then s else startSession e s)"

definition click_manual :: "env \<Rightarrow> component \<Rightarrow> component" where
  "click_manual e s = manualPresent e s"

text \<open>
  Lines 374--379, the result panel: \<^verbatim>\<open>{result && (...)}\<close>. A truthy result gives the
  panel, with the three values handed to React as children: \<^verbatim>\<open>result.userName\<close>, the
  formatted \<^verbatim>\<open>result.timestamp\<close>, and \<^verbatim>\<open>result.emotion || "manual"\<close>. A falsy result is
  itself the value of the expression, and there is no panel.
\<close>

datatype view = Panel js string js | Bare api_value

fun truthy_value :: "api_value \<Rightarrow> bool" where
  "truthy_value (Response res) = True"
| "truthy_value (Value v) = truthy v"

fun property :: "string \<Rightarrow> api_value \<Rightarrow> js" where
  "property k (Value (JObj fs)) = lookup k fs"
| "property k (Value v) = JUndefined"
| "property k (Response res) = JUndefined"

definition render_result :: "env \<Rightarrow> api_value \<Rightarrow> view" where
  "render_result e r =
     (if truthy_value r then
        Panel (property ''userName'' r)
              (date_string e (property ''timestamp'' r))
              (if truthy (property ''emotion'' r) then property ''emotion'' r else JStr ''manual'')
      else Bare r)"

definition display :: "env \<Rightarrow> component \<Rightarrow> view" where
  "display e s = render_result e (result s)"

definition mounted :: "string option \<Rightarrow> nat \<Rightarrow> nat \<Rightarrow> component" where
  "mounted tok w h =
     \<lparr> sessionId = JNull, status = ''Idle'', result = Value JNull, streaming = False,
       token = tok,
       video = Some \<lparr> srcObject = None, videoWidth = w, videoHeight = h \<rparr>,
       canvas = Some \<lparr> width = 300, height = 150 \<rparr>,
       cameras = [], trace = [] \<rparr>"

text \<open>Observations used to state the properties.\<close>

definition camera_live :: "component \<Rightarrow> nat \<Rightarrow> bool" where
  "camera_live s c = (c < length (cameras s) \<and> cameras s ! c)"

definition active_cameras :: "component \<Rightarrow> nat list" where
  "active_cameras s = filter (camera_live s) [0 ..< length (cameras s)]"

definition is_request :: "env \<Rightarrow> string \<Rightarrow> event \<Rightarrow> bool" where
  "is_request e path ev = (case ev of Fetch r \<Rightarrow> req_url r = api_base e @ path | _ \<Rightarrow> False)"

definition api_failed :: "exn + response \<Rightarrow> bool" where
  "api_failed r =
     (case r of
        Inl x \<Rightarrow> True
      | Inr res \<Rightarrow> (case api_response res of Inl x \<Rightarrow> True | Inr v \<Rightarrow> False))"

definition start_failed :: "env \<Rightarrow> component \<Rightarrow> component \<Rightarrow> bool" where
  "start_failed e s s' =
     (\<exists>k \<in> {length (trace s) ..< length (trace s')}.
        is_request e ''/api/attendance/start'' (trace s' ! k) \<and> api_failed (fetch_result e k))"

definition frame_events :: "env \<Rightarrow> string option \<Rightarrow> js \<Rightarrow> js \<Rightarrow> event list" where
  "frame_events e tok sid img =
     [Fetch (api_request e ''/api/attendance/frame'' (frame_opts tok sid img)), Timeout 100]"

text \<open>Concrete backends, browsers and pages, for running the component.\<close>

definition reply_json :: "js \<Rightarrow> response" where
  "reply_json v =
     \<lparr> res_ok = True, res_status = 200, res_content_type = Some ''application/json'',
       res_text = [], res_json = Some v \<rparr>"

definition reply_status :: "nat \<Rightarrow> string \<Rightarrow> response" where
  "reply_status n txt =
     \<lparr> res_ok = False, res_status = n, res_content_type = Some ''text/plain'',
       res_text = txt, res_json = None \<rparr>"

definition all_fine :: env where
  "all_fine =
     \<lparr> api_base = ''http://127.0.0.1:8000'',
       media_result = (\<lambda>k. None),
       play_result = (\<lambda>k. None),
       fetch_result = (\<lambda>k. Inr (reply_json (JObj [(''sessionId'', JStr ''s1'')]))),
       snapshot_result = (\<lambda>k. Inr ''data:image/jpeg;base64,AAAA''),
       date_string =
         (\<lambda>v. if v = JStr ''2024-01-01T00:00:00Z'' then ''1/1/2024, 12:00:00 AM''
              else ''Invalid Date'') \<rparr>"

definition camera_blocked :: env where
  "camera_blocked = all_fine\<lparr>media_result := (\<lambda>k. Some (DOMException ''NotAllowedError''))\<rparr>"

definition play_rejected :: env where
  "play_rejected = all_fine\<lparr>play_result := (\<lambda>k. Some (DOMException ''AbortError''))\<rparr>"

definition backend_down :: env where
  "backend_down = all_fine\<lparr>fetch_result := (\<lambda>k. Inr (reply_status 500 []))\<rparr>"

definition backend_refuses :: env where
  "backend_refuses = all_fine\<lparr>fetch_result := (\<lambda>k. Inr (reply_status 404 ''Not found''))\<rparr>"

definition recorded_manually :: js where
  "recorded_manually =
     JObj [(''userName'', JStr ''Alice''), (''timestamp'', JStr ''2024-01-01T00:00:00Z'')]"

definition recorded_happy :: js where
  "recorded_happy =
     JObj [(''userName'', JStr ''Alice''), (''emotion'', JStr ''happy''),
           (''timestamp'', JStr ''2024-01-01T00:00:00Z'')]"

definition manual_backend :: env where
  "manual_backend = all_fine\<lparr>fetch_result := (\<lambda>k. Inr (reply_json recorded_manually))\<rparr>"

definition happy_backend :: env where
  "happy_backend = all_fine\<lparr>fetch_result := (\<lambda>k. Inr (reply_json recorded_happy))\<rparr>"

definition page :: component where
  "page = mounted (Some ''tok'') 640 480"

definition in_session :: component where
  "in_session =
     page\<lparr>sessionId := JStr ''s1'', status := ''Streaming frames...'', streaming := True,
          video := Some \<lparr> srcObject = Some 0, videoWidth = 640, videoHeight = 480 \<rparr>,
          cameras := [True]\<rparr>"

section \<open>Basic facts\<close>

lemma snd_api: "snd (api e path opts s) = s\<lparr>trace := trace s @ [Fetch (api_request e path opts)]\<rparr>"
  by (simp add: api_def Let_def split: sum.splits)

lemma fst_api:
  "fst (api e path opts s) =
     (case fetch_result e (length (trace s)) of Inl x \<Rightarrow> Inl x | Inr res \<Rightarrow> api_response res)"
  by (simp add: api_def Let_def split: sum.splits)

lemma api_eq: "api e path opts s = (fst (api e path opts s), s\<lparr>trace := trace s @ [Fetch (api_request e path opts)]\<rparr>)"
  using snd_api [of e path opts s] by (metis prod.collapse)

lemma stopStream_fields:
  "streaming (stopStream s) = False"
  "status (stopStream s) = status s"
  "result (stopStream s) = result s"
  "sessionId (stopStream s) = sessionId s"
  "token (stopStream s) = token s"
  "video (stopStream s) = video s"
  "trace (stopStream s) = trace s @ (case current_stream s of None \<Rightarrow> [] | Some c \<Rightarrow> [TrackStop c])"
  by (simp_all add: stopStream_def Let_def split: option.splits)

lemma stopStream_not_live:
  "current_stream s = Some c \<Longrightarrow> \<not> camera_live (stopStream s) c"
  by (simp add: stopStream_def camera_live_def Let_def)

lemma current_stream_cong:
  "video s' = video s \<Longrightarrow> current_stream s' = current_stream s"
  by (simp add: current_stream_def)

lemma camera_live_sessionId [simp]:
  "camera_live (s\<lparr>sessionId := x\<rparr>) c = camera_live s c"
  by (simp add: camera_live_def)

lemma completeSession_alt:
  "completeSession e sid s =
     (stopStream
        (s\<lparr>trace := trace s @ [Fetch (api_request e ''/api/attendance/complete'' (complete_opts (token s) sid))],
           result := (case fst (api e ''/api/attendance/complete'' (complete_opts (token s) sid) s) of
                       Inl x \<Rightarrow> result s | Inr data \<Rightarrow> data),
           status := (case fst (api e ''/api/attendance/complete'' (complete_opts (token s) sid) s) of
                       Inl x \<Rightarrow> ''No face detected. You can use Manual Present.''
                     | Inr data \<Rightarrow> ''Completed'')\<rparr>))\<lparr>sessionId := JNull\<rparr>"
  by (simp add: completeSession_def api_def Let_def split: sum.splits)

lemma completeSession_pre:
  "\<exists>s2. completeSession e sid s = (stopStream s2)\<lparr>sessionId := JNull\<rparr> \<and>
        video s2 = video s \<and>
        trace s2 = trace s @ [Fetch (api_request e ''/api/attendance/complete'' (complete_opts (token s) sid))] \<and>
        status s2 = (case fst (api e ''/api/attendance/complete'' (complete_opts (token s) sid) s) of
                       Inl x \<Rightarrow> ''No face detected. You can use Manual Present.''
                     | Inr data \<Rightarrow> ''Completed'') \<and>
        result s2 = (case fst (api e ''/api/attendance/complete'' (complete_opts (token s) sid) s) of
                       Inl x \<Rightarrow> result s | Inr data \<Rightarrow> data)"
  by (subst completeSession_alt, rule exI, intro conjI, rule refl) simp_all

lemmas scenario_defs = all_fine_def camera_blocked_def play_rejected_def backend_down_def backend_refuses_def
  manual_backend_def happy_backend_def recorded_manually_def recorded_happy_def
  page_def in_session_def mounted_def reply_json_def reply_status_def

declare stream_loop.simps [simp del]

lemma current_stream_upd [simp]:
  "current_stream (s\<lparr>trace := t\<rparr>) = current_stream s"
  "current_stream (s\<lparr>result := r\<rparr>) = current_stream s"
  "current_stream (s\<lparr>status := st\<rparr>) = current_stream s"
  "current_stream (s\<lparr>sessionId := i\<rparr>) = current_stream s"
  "current_stream (s\<lparr>streaming := b\<rparr>) = current_stream s"
  "current_stream (s\<lparr>cameras := cs\<rparr>) = current_stream s"
  by (simp_all add: current_stream_def)

lemma captureFrame_fields:
  assumes "captureFrame e s = (r, s1)"
  shows "trace s1 = trace s" "token s1 = token s" "video s1 = video s" "status s1 = status s"
    "result s1 = result s" "sessionId s1 = sessionId s" "streaming s1 = streaming s"
    "cameras s1 = cameras s"
  using assms by (auto simp: captureFrame_def Let_def split: option.splits sum.splits)

lemma captureFrame_ok:
  assumes "\<forall>k. \<exists>d. snapshot_result e k = Inr d"
  shows "\<exists>img. fst (captureFrame e s) = Inr img"
proof -
  obtain d where "snapshot_result e (length (trace s)) = Inr d"
    using assms by blast
  then show ?thesis
    by (simp add: captureFrame_def Let_def split: option.splits)
qed

lemma stream_loop_step:
  assumes "i < frames" and "captureFrame e s = (Inr img, s1)"
  shows "stream_loop e sid i s =
           stream_loop e sid (i + 1)
             (s1\<lparr>trace := trace s1 @ frame_events e (token s1) sid img\<rparr>)"
  using assms
  by (subst stream_loop.simps) (simp add: snd_api setTimeout_def frame_events_def)

lemma stream_loop_done: "\<not> i < frames \<Longrightarrow> stream_loop e sid i s = (None, s)"
  by (subst stream_loop.simps) simp

lemma stream_loop_throw:
  assumes "i < frames" and "captureFrame e s = (Inl x, s1)"
  shows "stream_loop e sid i s = (Some x, s1)"
  using assms by (subst stream_loop.simps) simp

lemma stream_loop_ok:
  assumes snaps: "\<forall>k. \<exists>d. snapshot_result e k = Inr d"
  shows "\<exists>imgs s'. stream_loop e sid i s = (None, s') \<and> length imgs = frames - i \<and>
           trace s' = trace s @ concat (map (frame_events e (token s) sid) imgs) \<and>
           token s' = token s \<and> video s' = video s \<and> status s' = status s \<and>
           result s' = result s \<and> sessionId s' = sessionId s \<and>
           streaming s' = streaming s \<and> cameras s' = cameras s"
  using snaps
proof (induction e sid i s rule: stream_loop.induct)
  case (1 e sid i s)
  note snaps = "1.prems"
  show ?case
  proof (cases "i < frames")
    case False
    then show ?thesis
      by (simp add: stream_loop_done)
  next
    case True
    obtain img where "fst (captureFrame e s) = Inr img"
      using captureFrame_ok [OF snaps] by blast
    then obtain s1 where cap: "captureFrame e s = (Inr img, s1)"
      by (metis prod.collapse)
    note f = captureFrame_fields [OF cap]
    let ?s3 = "s1\<lparr>trace := trace s1 @ frame_events e (token s1) sid img\<rparr>"
    have step: "stream_loop e sid i s = stream_loop e sid (i + 1) ?s3"
      using True cap by (rule stream_loop_step)
    have s3: "?s3 = setTimeout 100 (snd (api e ''/api/attendance/frame'' (frame_opts (token s1) sid img) s1))"
      by (simp add: snd_api setTimeout_def frame_events_def)
    obtain imgs s' where ih: "stream_loop e sid (i + 1) ?s3 = (None, s')"
      "length imgs = frames - (i + 1)"
      "trace s' = trace ?s3 @ concat (map (frame_events e (token ?s3) sid) imgs)"
      "token s' = token ?s3" "video s' = video ?s3" "status s' = status ?s3"
      "result s' = result ?s3" "sessionId s' = sessionId ?s3"
      "streaming s' = streaming ?s3" "cameras s' = cameras ?s3"
      using "1.IH" [OF True cap [symmetric] refl snaps] unfolding s3 [symmetric] by blast
    have "length (img # imgs) = frames - i"
      using True ih(2) by simp
    moreover have "trace s' = trace s @ concat (map (frame_events e (token s) sid) (img # imgs))"
      using ih(3) f by simp
    ultimately show ?thesis
      using step ih f by (intro exI [of _ "img # imgs"] exI [of _ s']) simp
  qed
qed

lemma not_start_frame_events:
  "\<forall>ev \<in> set (frame_events e tok sid img). \<not> is_request e ''/api/attendance/start'' ev"
  by (simp add: frame_events_def is_request_def api_request_def)

lemma stream_loop_trace:
  "\<exists>evs. trace (snd (stream_loop e sid i s)) = trace s @ evs \<and>
         (\<forall>ev \<in> set evs. \<not> is_request e ''/api/attendance/start'' ev) \<and>
         video (snd (stream_loop e sid i s)) = video s \<and>
         token (snd (stream_loop e sid i s)) = token s"
proof (induction e sid i s rule: stream_loop.induct)
  case (1 e sid i s)
  show ?case
  proof (cases "i < frames")
    case False
    then show ?thesis
      by (simp add: stream_loop_done)
  next
    case True
    obtain r s1 where cap: "captureFrame e s = (r, s1)"
      by (metis prod.collapse)
    note f = captureFrame_fields [OF cap]
    show ?thesis
    proof (cases r)
      case (Inl x)
      then show ?thesis
        using stream_loop_throw [OF True, of e s x s1 sid] cap f by simp
    next
      case (Inr img)
      let ?s3 = "s1\<lparr>trace := trace s1 @ frame_events e (token s1) sid img\<rparr>"
      have cap': "captureFrame e s = (Inr img, s1)"
        using cap Inr by simp
      have step: "stream_loop e sid i s = stream_loop e sid (i + 1) ?s3"
        using True cap' by (rule stream_loop_step)
      have s3: "?s3 = setTimeout 100 (snd (api e ''/api/attendance/frame'' (frame_opts (token s1) sid img) s1))"
        by (simp add: snd_api setTimeout_def frame_events_def)
      obtain evs where ih: "trace (snd (stream_loop e sid (i + 1) ?s3)) = trace ?s3 @ evs"
        "\<forall>ev \<in> set evs. \<not> is_request e ''/api/attendance/start'' ev"
        "video (snd (stream_loop e sid (i + 1) ?s3)) = video ?s3"
        "token (snd (stream_loop e sid (i + 1) ?s3)) = token ?s3"
        using "1.IH" [OF True cap' [symmetric] refl] unfolding s3 [symmetric] by blast
      have "trace (snd (stream_loop e sid i s)) = trace s @ (frame_events e (token s1) sid img @ evs)"
        using step ih(1) f by simp
      moreover have "\<forall>ev \<in> set (frame_events e (token s1) sid img @ evs).
                       \<not> is_request e ''/api/attendance/start'' ev"
        using ih(2) not_start_frame_events [of e "token s1" sid img] by auto
      ultimately show ?thesis
        using step ih(3,4) f by (intro exI [of _ "frame_events e (token s1) sid img @ evs"]) simp
    qed
  qed
qed

lemma streamFrames_trace:
  "\<exists>evs. trace (fire_and_forget (streamFrames e sid s)) = trace s @ evs \<and>
         (\<forall>ev \<in> set evs. \<not> is_request e ''/api/attendance/start'' ev)"
proof -
  obtain evs where l: "trace (snd (stream_loop e sid 0 s)) = trace s @ evs"
    "\<forall>ev \<in> set evs. \<not> is_request e ''/api/attendance/start'' ev"
    using stream_loop_trace [of e sid 0 s] by blast
  obtain r s1 where sl: "stream_loop e sid 0 s = (r, s1)"
    by (metis prod.collapse)
  show ?thesis
  proof (cases r)
    case None
    let ?evs = "evs @ [Fetch (api_request e ''/api/attendance/complete'' (complete_opts (token s1) sid))]
               @ (case current_stream s1 of None \<Rightarrow> [] | Some c \<Rightarrow> [TrackStop c])"
    have "trace (fire_and_forget (streamFrames e sid s)) = trace s @ ?evs"
      using None sl l(1)
      by (simp add: streamFrames_def fire_and_forget_def completeSession_alt stopStream_fields)
    moreover have "\<forall>ev \<in> set ?evs. \<not> is_request e ''/api/attendance/start'' ev"
      using l(2) by (auto simp: is_request_def api_request_def split: option.splits)
    ultimately show ?thesis by blast
  next
    case (Some x)
    have "trace (fire_and_forget (streamFrames e sid s)) = trace s @ (evs @ [Unhandled x])"
      using Some sl l(1) by (simp add: streamFrames_def fire_and_forget_def)
    moreover have "\<forall>ev \<in> set (evs @ [Unhandled x]). \<not> is_request e ''/api/attendance/start'' ev"
      using l(2) by (auto simp: is_request_def)
    ultimately show ?thesis by blast
  qed
qed

lemma start_not_failed:
  assumes tr: "trace s' = trace s @ pre @ Fetch r # evs"
    and pre: "\<forall>ev \<in> set pre. \<not> is_request e p ev"
    and evs: "\<forall>ev \<in> set evs. \<not> is_request e p ev"
    and ok: "\<not> api_failed (fetch_result e (length (trace s) + length pre))"
  shows "\<not> (\<exists>k \<in> {length (trace s) ..< length (trace s')}.
              is_request e p (trace s' ! k) \<and> api_failed (fetch_result e k))"
proof
  assume "\<exists>k \<in> {length (trace s) ..< length (trace s')}.
              is_request e p (trace s' ! k) \<and> api_failed (fetch_result e k)"
  then obtain k where k: "length (trace s) \<le> k" "k < length (trace s')"
    "is_request e p (trace s' ! k)" "api_failed (fetch_result e k)"
    by auto
  define j where "j = k - length (trace s)"
  have kj: "k = length (trace s) + j"
    using k(1) by (simp add: j_def)
  have nth: "trace s' ! k = (pre @ Fetch r # evs) ! j"
    using tr kj by (simp add: nth_append)
  have jlen: "j < length (pre @ Fetch r # evs)"
    using k(2) tr kj by simp
  consider "j < length pre" | "j = length pre" | "length pre < j"
    by linarith
  then show False
  proof cases
    case 1
    then have "trace s' ! k \<in> set pre"
      using nth by (simp add: nth_append)
    then show False using pre k(3) by blast
  next
    case 2
    then show False using ok k(4) kj by simp
  next
    case 3
    then have "trace s' ! k = evs ! (j - length pre - 1)"
      using nth by (simp add: nth_append nth_Cons')
    moreover have "j - length pre - 1 < length evs"
      using 3 jlen by simp
    ultimately have "trace s' ! k \<in> set evs"
      by simp
    then show False using evs k(3) by blast
  qed
qed

lemma startSession_try_acquire:
  "startSession_try e s =
     (case acquire e s of
        (Some x, s2) \<Rightarrow> (Some x, s2)
      | (None, s2) \<Rightarrow>
          (case api e ''/api/attendance/start'' (start_opts (token s2)) (s2\<lparr>streaming := True\<rparr>) of
             (Inl x, s4) \<Rightarrow> (Some x, s4)
           | (Inr v, s4) \<Rightarrow>
               (case get_sessionId v of
                  Inl x \<Rightarrow> (Some x, s4)
                | Inr sid \<Rightarrow>
                    (None,
                     fire_and_forget
                       (streamFrames e sid
                          (s4\<lparr>sessionId := sid, status := ''Streaming frames...''\<rparr>))))))"
  by (simp add: startSession_try_def acquire_def Let_def split: prod.splits sum.splits option.splits)

lemma acquire_trace:
  "\<exists>pre. trace (snd (acquire e s)) = trace s @ pre \<and>
         (\<forall>ev \<in> set pre. ev = GetUserMedia 640 480 \<or> ev = Play)"
  by (auto simp: acquire_def getUserMedia_def play_def Let_def split: option.splits)

lemma captureFrame_replies:
  "captureFrame (e\<lparr>fetch_result := f\<rparr>) s = captureFrame e s"
  by (simp add: captureFrame_def Let_def split: option.splits)

lemma frame_events_replies:
  "frame_events (e\<lparr>fetch_result := f\<rparr>) tok sid img = frame_events e tok sid img"
  by (simp add: frame_events_def api_request_def)

lemma stream_loop_replies:
  "stream_loop (e\<lparr>fetch_result := f\<rparr>) sid i s = stream_loop e sid i s"
proof (induction e sid i s rule: stream_loop.induct)
  case (1 e sid i s)
  show ?case
  proof (cases "i < frames")
    case False
    then show ?thesis
      by (simp add: stream_loop_done)
  next
    case True
    obtain r s1 where cap: "captureFrame e s = (r, s1)"
      by (metis prod.collapse)
    then have cap': "captureFrame (e\<lparr>fetch_result := f\<rparr>) s = (r, s1)"
      by (simp add: captureFrame_replies)
    show ?thesis
    proof (cases r)
      case (Inl x)
      then show ?thesis
        using stream_loop_throw [OF True, of e s x s1 sid]
          stream_loop_throw [OF True, of "e\<lparr>fetch_result := f\<rparr>" s x s1 sid] cap cap'
        by simp
    next
      case (Inr img)
      let ?s3 = "s1\<lparr>trace := trace s1 @ frame_events e (token s1) sid img\<rparr>"
      have c: "captureFrame e s = (Inr img, s1)"
        and c': "captureFrame (e\<lparr>fetch_result := f\<rparr>) s = (Inr img, s1)"
        using cap cap' Inr by simp_all
      have s3: "?s3 = setTimeout 100 (snd (api e ''/api/attendance/frame'' (frame_opts (token s1) sid img) s1))"
        by (simp add: snd_api setTimeout_def frame_events_def)
      have "stream_loop (e\<lparr>fetch_result := f\<rparr>) sid i s =
              stream_loop (e\<lparr>fetch_result := f\<rparr>) sid (i + 1) ?s3"
        using stream_loop_step [OF True c', of sid] by (simp add: frame_events_replies)
      also have "\<dots> = stream_loop e sid (i + 1) ?s3"
        using "1.IH" [OF True c [symmetric] refl] unfolding s3 [symmetric] .
      also have "\<dots> = stream_loop e sid i s"
        using stream_loop_step [OF True c, of sid] by simp
      finally show ?thesis .
    qed
  qed
qed

lemmas run_defs = startSession_def startSession_try_def getUserMedia_def play_def api_def
  api_response_def click_start_def Let_def start_opts_def api_request_def

section \<open>The frame streaming loop\<close>

text \<open>
  C1: in a session in which every frame capture proceeds (no \<^verbatim>\<open>captureFrame\<close> throws), the
  loop of \<^verbatim>\<open>streamFrames\<close> runs exactly 20 iterations, each of them a frame post followed
  by a delay of 100, whatever the backend answers to the posts; the loop ends normally and
  \<^verbatim>\<open>completeSession\<close> is then called on the state the loop left, its first effect being
  the completion request.
\<close>

theorem streamFrames_twenty:
  assumes "\<forall>k. \<exists>d. snapshot_result e k = Inr d"
  shows "\<exists>imgs s1. length imgs = 20 \<and>
           stream_loop e sid 0 s = (None, s1) \<and>
           trace s1 = trace s @ concat (map (frame_events e (token s) sid) imgs) \<and>
           streamFrames e sid s = (None, completeSession e sid s1) \<and>
           trace (completeSession e sid s1) =
             trace s1
               @ [Fetch (api_request e ''/api/attendance/complete'' (complete_opts (token s) sid))]
               @ (case current_stream s of None \<Rightarrow> [] | Some c \<Rightarrow> [TrackStop c])"
proof -
  obtain imgs s1 where l: "stream_loop e sid 0 s = (None, s1)" "length imgs = frames - 0"
    "trace s1 = trace s @ concat (map (frame_events e (token s) sid) imgs)"
    "token s1 = token s" "video s1 = video s"
    using stream_loop_ok [OF assms, of sid 0 s] by blast
  have "current_stream s1 = current_stream s"
    using l(5) by (rule current_stream_cong)
  then have "trace (completeSession e sid s1) =
             trace s1
               @ [Fetch (api_request e ''/api/attendance/complete'' (complete_opts (token s) sid))]
               @ (case current_stream s of None \<Rightarrow> [] | Some c \<Rightarrow> [TrackStop c])"
    using l(4) by (simp add: completeSession_alt stopStream_fields)
  moreover have "streamFrames e sid s = (None, completeSession e sid s1)"
    using l(1) by (simp add: streamFrames_def)
  moreover have "length imgs = 20"
    using l(2) by (simp add: frames_def)
  ultimately show ?thesis
    using l(1,3) by blast
qed

theorem streamFrames_twenty_witness:
  "(\<forall>k. \<exists>d. snapshot_result all_fine k = Inr d) \<and>
   (\<exists>imgs s1. length imgs = 20 \<and>
      stream_loop all_fine (JStr ''s1'') 0 in_session = (None, s1) \<and>
      trace s1 = concat (map (frame_events all_fine (Some ''tok'') (JStr ''s1'')) imgs) \<and>
      streamFrames all_fine (JStr ''s1'') in_session = (None, completeSession all_fine (JStr ''s1'') s1) \<and>
      trace (completeSession all_fine (JStr ''s1'') s1) =
        trace s1
          @ [Fetch (api_request all_fine ''/api/attendance/complete''
                      (complete_opts (Some ''tok'') (JStr ''s1'')))]
          @ [TrackStop 0])"
proof -
  have h: "\<forall>k. \<exists>d. snapshot_result all_fine k = Inr d"
    by (simp add: scenario_defs)
  have "token in_session = Some ''tok''" "trace in_session = []" "current_stream in_session = Some 0"
    by (simp_all add: scenario_defs current_stream_def)
  then show ?thesis
    using h streamFrames_twenty [OF h, of "JStr ''s1''" in_session] by simp
qed

text \<open>
  C7: when no frame capture throws, then whichever frame posts fail (those answered at the
  indices in \<open>F\<close>: none, some or all of them), the loop runs all its 20 iterations, one
  post and one delay of 100 each, and ends normally. No failure is shown or counted:
  status, result, session identifier, \<open>streaming\<close> and cameras are what they were before
  the loop, and the state the loop leaves is the one it leaves for any other replies of
  the backend.
\<close>

theorem frame_failures_ignored:
  assumes caps: "\<forall>k. \<exists>d. snapshot_result e k = Inr d"
    and fails: "\<forall>k \<in> F. api_failed (fetch_result e k)"
  shows "\<exists>imgs s1. length imgs = 20 \<and>
           stream_loop e sid 0 s = (None, s1) \<and>
           trace s1 = trace s @ concat (map (frame_events e (token s) sid) imgs) \<and>
           status s1 = status s \<and> result s1 = result s \<and> sessionId s1 = sessionId s \<and>
           streaming s1 = streaming s \<and> cameras s1 = cameras s \<and>
           (\<forall>f. stream_loop (e\<lparr>fetch_result := f\<rparr>) sid 0 s = (None, s1))"
proof -
  obtain imgs s1 where l: "stream_loop e sid 0 s = (None, s1)" "length imgs = frames - 0"
    "trace s1 = trace s @ concat (map (frame_events e (token s) sid) imgs)"
    "status s1 = status s" "result s1 = result s" "sessionId s1 = sessionId s"
    "streaming s1 = streaming s" "cameras s1 = cameras s"
    using stream_loop_ok [OF caps, of sid 0 s] by blast
  have "length imgs = 20"
    using l(2) by (simp add: frames_def)
  moreover have "\<forall>f. stream_loop (e\<lparr>fetch_result := f\<rparr>) sid 0 s = (None, s1)"
    using l(1) by (simp add: stream_loop_replies)
  ultimately show ?thesis
    using l by blast
qed

theorem frame_failures_ignored_witness:
  "(\<forall>k. \<exists>d. snapshot_result backend_down k = Inr d) \<and>
   (\<forall>k. api_failed (fetch_result backend_down k)) \<and>
   (\<exists>imgs s1. length imgs = 20 \<and>
      stream_loop backend_down (JStr ''s1'') 0 in_session = (None, s1) \<and>
      trace s1 = concat (map (frame_events backend_down (Some ''tok'') (JStr ''s1'')) imgs) \<and>
      status s1 = ''Streaming frames...'' \<and> result s1 = Value JNull \<and>
      sessionId s1 = JStr ''s1'' \<and> streaming s1 = True \<and> cameras s1 = [True] \<and>
      stream_loop all_fine (JStr ''s1'') 0 in_session = (None, s1))"
proof -
  have a: "\<forall>k. \<exists>d. snapshot_result backend_down k = Inr d"
    by (simp add: scenario_defs)
  have b0: "\<forall>k. api_failed (fetch_result backend_down k)"
    by (simp add: scenario_defs api_failed_def api_response_def)
  then have b: "\<forall>k \<in> UNIV. api_failed (fetch_result backend_down k)"
    by simp
  have c: "backend_down\<lparr>fetch_result := fetch_result all_fine\<rparr> = all_fine"
    by (simp add: scenario_defs)
  have d: "token in_session = Some ''tok''" "trace in_session = []"
    "status in_session = ''Streaming frames...''" "result in_session = Value JNull"
    "sessionId in_session = JStr ''s1''" "streaming in_session = True"
    "cameras in_session = [True]"
    by (simp_all add: scenario_defs)
  obtain imgs s1 where l: "length imgs = 20"
    "stream_loop backend_down (JStr ''s1'') 0 in_session = (None, s1)"
    "trace s1 = trace in_session @ concat (map (frame_events backend_down (token in_session) (JStr ''s1'')) imgs)"
    "status s1 = status in_session" "result s1 = result in_session"
    "sessionId s1 = sessionId in_session" "streaming s1 = streaming in_session"
    "cameras s1 = cameras in_session"
    "\<forall>f. stream_loop (backend_down\<lparr>fetch_result := f\<rparr>) (JStr ''s1'') 0 in_session = (None, s1)"
    using frame_failures_ignored [OF a b, of "JStr ''s1''" in_session] by blast
  have "stream_loop all_fine (JStr ''s1'') 0 in_session = (None, s1)"
    using l(9) [rule_format, of "fetch_result all_fine"] c by simp
  then show ?thesis
    using a b0 l d by auto
qed

section \<open>The transport client\<close>

text \<open>
  C10, as stated: every non-success response is thrown as a failure whose message is the
  response body text. It fails for a response with an empty body: the backend answers
  500 with no body, and the message is \<open>Request failed: 500\<close>, not the (empty) body.
\<close>

theorem api_empty_body_counterexample:
  "fetch_result backend_down (length (trace page)) = Inr (reply_status 500 []) \<and>
   \<not> res_ok (reply_status 500 []) \<and>
   fst (api backend_down ''/api/users'' (start_opts None) page)
     \<noteq> Inl (Error (res_text (reply_status 500 [])))"
  by (simp add: scenario_defs fst_api api_response_def)

text \<open>
  C10, amended: when \<^verbatim>\<open>fetch\<close> resolves with a response that is not ok, \<^verbatim>\<open>api\<close> throws
  an \<^verbatim>\<open>Error\<close> whose message is the response body text when that text is not empty, and
  \<open>Request failed: \<close> followed by the status code when it is empty.
\<close>

theorem api_non_ok_throws:
  assumes "fetch_result e (length (trace s)) = Inr res" and "\<not> res_ok res"
  shows "fst (api e path opts s) =
           Inl (Error (if res_text res \<noteq> [] then res_text res
                       else ''Request failed: '' @ show_nat (res_status res)))"
  using assms by (simp add: fst_api api_response_def)

theorem api_non_ok_throws_witness:
  "fetch_result backend_refuses (length (trace page)) = Inr (reply_status 404 ''Not found'') \<and>
   \<not> res_ok (reply_status 404 ''Not found'') \<and>
   fst (api backend_refuses ''/api/users'' (start_opts None) page) = Inl (Error ''Not found'')"
  using api_non_ok_throws [of backend_refuses page "reply_status 404 ''Not found''" "''/api/users''" "start_opts None"]
  by (simp add: scenario_defs)

section \<open>Starting a session\<close>

text \<open>
  C6: when \<^verbatim>\<open>getUserMedia\<close> rejects (camera denied or unavailable), the status becomes
  exactly \<open>Camera permission denied or unavailable\<close> and the only effect of the attempt
  is the camera request itself: no request at all is sent to the backend, so no
  session-start request either. No stream is handed out and \<open>streaming\<close> is unchanged.
\<close>

theorem camera_denied:
  assumes "media_result e (length (trace s)) = Some x"
  shows "status (startSession e s) = ''Camera permission denied or unavailable'' \<and>
         trace (startSession e s) = trace s @ [GetUserMedia 640 480] \<and>
         cameras (startSession e s) = cameras s \<and>
         streaming (startSession e s) = streaming s"
  using assms by (simp add: startSession_def startSession_try_def getUserMedia_def)

theorem camera_denied_witness:
  "media_result camera_blocked (length (trace page)) = Some (DOMException ''NotAllowedError'') \<and>
   status (startSession camera_blocked page) = ''Camera permission denied or unavailable'' \<and>
   trace (startSession camera_blocked page) = [GetUserMedia 640 480]"
  using camera_denied [of camera_blocked page "DOMException ''NotAllowedError''"]
  by (simp add: scenario_defs)

text \<open>
  C5: if the session-start request issued by an attempt fails (\<^verbatim>\<open>fetch\<close> rejects, the
  response is not ok, or its JSON body does not parse), the attempt sends no request to
  the frame endpoint.
\<close>

theorem start_failure_no_frames:
  assumes "start_failed e s (startSession e s)"
  shows "filter (is_request e ''/api/attendance/frame'')
           (drop (length (trace s)) (trace (startSession e s))) = []"
proof -
  let ?s0 = "s\<lparr>result := Value JNull, status := ''Starting session...''\<rparr>"
  let ?start = "Fetch (api_request e ''/api/attendance/start'' (start_opts (token (snd (acquire e ?s0)))))"
  obtain pr s2 where acq: "acquire e ?s0 = (pr, s2)"
    by (metis prod.collapse)
  obtain pre where pre: "trace s2 = trace s @ pre"
    "\<forall>ev \<in> set pre. ev = GetUserMedia 640 480 \<or> ev = Play"
    using acquire_trace [of e ?s0] acq by auto
  have pre_frame: "filter (is_request e ''/api/attendance/frame'') pre = []"
    using pre(2) by (auto simp: filter_empty_conv is_request_def)
  have pre_start: "\<forall>ev \<in> set pre. \<not> is_request e ''/api/attendance/start'' ev"
    using pre(2) by (auto simp: is_request_def)
  have start_frame: "\<not> is_request e ''/api/attendance/frame'' ?start"
    by (simp add: is_request_def api_request_def)
  show ?thesis
  proof (cases pr)
    case (Some x)
    then have "trace (startSession e s) = trace s @ pre"
      using acq pre(1) by (simp add: startSession_def startSession_try_acquire)
    then show ?thesis
      using pre_frame by simp
  next
    case None
    let ?s3 = "s2\<lparr>streaming := True\<rparr>"
    obtain r where api: "api e ''/api/attendance/start'' (start_opts (token s2)) ?s3 =
        (r, ?s3\<lparr>trace := trace s @ pre @ [Fetch (api_request e ''/api/attendance/start'' (start_opts (token s2)))]\<rparr>)"
      using api_eq [of e "''/api/attendance/start''" "start_opts (token s2)" ?s3] pre(1) by simp
    have short: "trace s' = trace s @ pre @ [Fetch (api_request e ''/api/attendance/start'' (start_opts (token s2)))]
        \<Longrightarrow> filter (is_request e ''/api/attendance/frame'') (drop (length (trace s)) (trace s')) = []" for s'
      using pre_frame by (simp add: is_request_def api_request_def)
    show ?thesis
    proof (cases r)
      case (Inl x)
      then have "trace (startSession e s) =
                   trace s @ pre @ [Fetch (api_request e ''/api/attendance/start'' (start_opts (token s2)))]"
        using acq None api by (simp add: startSession_def startSession_try_acquire)
      then show ?thesis by (rule short)
    next
      case (Inr v)
      have ok: "\<not> api_failed (fetch_result e (length (trace s) + length pre))"
        using fst_api [of e "''/api/attendance/start''" "start_opts (token s2)" ?s3] api Inr pre(1)
        by (auto simp: api_failed_def split: sum.splits)
      show ?thesis
      proof (cases "get_sessionId v")
        case (Inl x)
        then have "trace (startSession e s) =
                     trace s @ pre @ [Fetch (api_request e ''/api/attendance/start'' (start_opts (token s2)))]"
          using acq None api Inr by (simp add: startSession_def startSession_try_acquire)
        then show ?thesis by (rule short)
      next
        case sid: (Inr sid)
        let ?s5 = "?s3\<lparr>trace := trace s @ pre @ [Fetch (api_request e ''/api/attendance/start'' (start_opts (token s2)))],
                        sessionId := sid, status := ''Streaming frames...''\<rparr>"
        obtain evs where evs: "trace (fire_and_forget (streamFrames e sid ?s5)) = trace ?s5 @ evs"
          "\<forall>ev \<in> set evs. \<not> is_request e ''/api/attendance/start'' ev"
          using streamFrames_trace [of e sid ?s5] by blast
        have "startSession e s = fire_and_forget (streamFrames e sid ?s5)"
          using acq None api Inr sid by (simp add: startSession_def startSession_try_acquire)
        then have "trace (startSession e s) =
            trace s @ pre @ Fetch (api_request e ''/api/attendance/start'' (start_opts (token s2))) # evs"
          using evs(1) by simp
        then have "\<not> start_failed e s (startSession e s)"
          unfolding start_failed_def using pre_start evs(2) ok by (rule start_not_failed)
        then show ?thesis
          using assms by simp
      qed
    qed
  qed
qed

theorem start_failure_no_frames_witness:
  "start_failed backend_down page (startSession backend_down page) \<and>
   filter (is_request backend_down ''/api/attendance/frame'')
     (drop (length (trace page)) (trace (startSession backend_down page))) = []"
proof -
  have tr: "trace (startSession backend_down page) =
      [GetUserMedia 640 480, Play,
       Fetch (api_request backend_down ''/api/attendance/start'' (start_opts (Some ''tok'')))]"
    by (simp add: scenario_defs run_defs)
  have pg: "trace page = []"
    by (simp add: scenario_defs)
  have fl: "api_failed (fetch_result backend_down 2)"
    by (simp add: scenario_defs api_failed_def api_response_def)
  have sf: "start_failed backend_down page (startSession backend_down page)"
    unfolding start_failed_def
    by (intro bexI [of _ 2]) (simp_all add: tr pg fl is_request_def api_request_def)
  show ?thesis
    using sf start_failure_no_frames [OF sf] by simp
qed

text \<open>
  C4, at a failing input: the camera is granted, \<^verbatim>\<open>play\<close> succeeds and the backend answers
  the session-start request with 500. The \<^verbatim>\<open>catch\<close> of \<^verbatim>\<open>startSession\<close> only sets the
  status: \<open>streaming\<close> stays true and the stream stays live, so the start button stays
  disabled, and a later click on it changes nothing.
\<close>

theorem start_failure_stuck:
  "status (click_start backend_down page) = ''Camera permission denied or unavailable'' \<and>
   streaming (click_start backend_down page) = True \<and>
   camera_live (click_start backend_down page) 0 \<and>
   sessionId (click_start backend_down page) = JNull \<and>
   trace (click_start backend_down page) =
     [GetUserMedia 640 480, Play,
      Fetch (api_request backend_down ''/api/attendance/start'' (start_opts (Some ''tok'')))] \<and>
   click_start all_fine (click_start backend_down page) = click_start backend_down page"
  by (simp add: scenario_defs run_defs camera_live_def)

text \<open>
  C3, at a failing input: the camera is granted and \<^verbatim>\<open>play\<close> rejects. The stream is left
  live with \<open>streaming\<close> false, so the start button is enabled; a second attempt with the
  same outcome leaves two live camera streams.
\<close>

theorem two_live_cameras:
  "streaming (click_start play_rejected page) = False \<and>
   active_cameras (click_start play_rejected page) = [0] \<and>
   streaming (click_start play_rejected (click_start play_rejected page)) = False \<and>
   active_cameras (click_start play_rejected (click_start play_rejected page)) = [0, 1]"
  by (simp add: scenario_defs run_defs camera_live_def active_cameras_def upt_rec)

section \<open>Completing a session\<close>

text \<open>
  C2: whatever the completion request returns, \<^verbatim>\<open>completeSession\<close> ends with the session
  identifier cleared and \<open>streaming\<close> false, the stream attached to the video element is
  not live afterwards, and its track is stopped exactly once: the effects of the call are
  the completion request followed by that one stop.
\<close>

theorem completeSession_cleanup:
  "sessionId (completeSession e sid s) = JNull \<and>
   streaming (completeSession e sid s) = False \<and>
   (\<forall>c. current_stream s = Some c \<longrightarrow> \<not> camera_live (completeSession e sid s) c) \<and>
   trace (completeSession e sid s) =
     trace s @ [Fetch (api_request e ''/api/attendance/complete'' (complete_opts (token s) sid))]
       @ (case current_stream s of None \<Rightarrow> [] | Some c \<Rightarrow> [TrackStop c])"
proof -
  obtain s2 where s2: "completeSession e sid s = (stopStream s2)\<lparr>sessionId := JNull\<rparr>"
    "video s2 = video s"
    "trace s2 = trace s @ [Fetch (api_request e ''/api/attendance/complete'' (complete_opts (token s) sid))]"
    using completeSession_pre [of e sid s] by blast
  have cs: "current_stream s2 = current_stream s"
    using s2(2) by (rule current_stream_cong)
  show ?thesis
    using s2 cs stopStream_not_live [of s2]
    by (simp add: stopStream_fields)
qed

theorem completeSession_cleanup_witness:
  "current_stream in_session = Some 0 \<and>
   camera_live in_session 0 \<and>
   \<not> camera_live (completeSession all_fine (JStr ''s1'') in_session) 0 \<and>
   sessionId (completeSession all_fine (JStr ''s1'') in_session) = JNull \<and>
   streaming (completeSession all_fine (JStr ''s1'') in_session) = False"
  using completeSession_cleanup [of all_fine "JStr ''s1''" in_session]
  by (simp add: scenario_defs current_stream_def camera_live_def)

text \<open>
  C9: when the completion request of a streamed session fails, the status becomes exactly
  \<open>No face detected. You can use Manual Present.\<close>, the session identifier is cleared,
  \<open>streaming\<close> is false and the attached stream is not live; the completion request was
  sent once only (no retry).
\<close>

theorem completion_failure:
  assumes "fst (api e ''/api/attendance/complete'' (complete_opts (token s) sid) s) = Inl x"
  shows "status (completeSession e sid s) = ''No face detected. You can use Manual Present.'' \<and>
         sessionId (completeSession e sid s) = JNull \<and>
         streaming (completeSession e sid s) = False \<and>
         (\<forall>c. current_stream s = Some c \<longrightarrow> \<not> camera_live (completeSession e sid s) c) \<and>
         filter (is_request e ''/api/attendance/complete'') (drop (length (trace s)) (trace (completeSession e sid s))) =
           [Fetch (api_request e ''/api/attendance/complete'' (complete_opts (token s) sid))]"
proof -
  obtain s2 where s2: "completeSession e sid s = (stopStream s2)\<lparr>sessionId := JNull\<rparr>"
    "video s2 = video s"
    "trace s2 = trace s @ [Fetch (api_request e ''/api/attendance/complete'' (complete_opts (token s) sid))]"
    "status s2 = (case fst (api e ''/api/attendance/complete'' (complete_opts (token s) sid) s) of
                       Inl x \<Rightarrow> ''No face detected. You can use Manual Present.''
                     | Inr data \<Rightarrow> ''Completed'')"
    using completeSession_pre [of e sid s] by blast
  have cs: "current_stream s2 = current_stream s"
    using s2(2) by (rule current_stream_cong)
  show ?thesis
    using s2 cs assms stopStream_not_live [of s2]
    by (simp add: stopStream_fields is_request_def api_request_def split: option.splits)
qed

theorem completion_failure_witness:
  "fst (api backend_down ''/api/attendance/complete'' (complete_opts (token in_session) (JStr ''s1'')) in_session)
     = Inl (Error ''Request failed: 500'') \<and>
   current_stream in_session = Some 0 \<and>
   status (completeSession backend_down (JStr ''s1'') in_session) = ''No face detected. You can use Manual Present.'' \<and>
   sessionId (completeSession backend_down (JStr ''s1'') in_session) = JNull \<and>
   \<not> camera_live (completeSession backend_down (JStr ''s1'') in_session) 0"
proof -
  have h: "fst (api backend_down ''/api/attendance/complete'' (complete_opts (token in_session) (JStr ''s1'')) in_session)
     = Inl (Error ''Request failed: 500'')"
    by (simp add: scenario_defs fst_api api_response_def)
  have c: "current_stream in_session = Some 0"
    by (simp add: scenario_defs current_stream_def)
  show ?thesis
    using completion_failure [OF h] h c by simp
qed

section \<open>Manual fallback\<close>

text \<open>
  C8, as stated: the outcome returned by the backend is displayed as it is. It fails for
  an outcome without an emotion, as a manual record has: the panel shows \<open>manual\<close> for
  the emotion, which the outcome does not contain, and the timestamp as the browser
  formats it, not as it was returned.
\<close>

theorem manual_display_counterexample:
  "result (manualPresent manual_backend page) = Value recorded_manually \<and>
   display manual_backend (manualPresent manual_backend page) =
     Panel (JStr ''Alice'') ''1/1/2024, 12:00:00 AM'' (JStr ''manual'') \<and>
   display manual_backend (manualPresent manual_backend page) \<noteq>
     Panel (property ''userName'' (Value recorded_manually))
           ''2024-01-01T00:00:00Z''
           (property ''emotion'' (Value recorded_manually))"
  by (simp add: scenario_defs manualPresent_def api_def api_response_def Let_def display_def
      render_result_def)

text \<open>
  C8, amended: \<^verbatim>\<open>manualPresent\<close> has exactly one effect, a POST to the completion endpoint
  whose body is \<open>{manual: true}\<close> and nothing else (no session identifier, no frame). It
  asks for no camera and sends nothing to the frame or session-start endpoints; cameras,
  video element, session identifier and \<open>streaming\<close> are left as they were. When the
  request succeeds, the value it returned is stored unchanged as the result; if that
  value is truthy the panel shows its \<open>userName\<close>, its \<open>timestamp\<close> formatted by the
  browser, and its \<open>emotion\<close>, or \<open>manual\<close> when the emotion is missing or falsy; if it
  is falsy there is no panel. When the request fails, result and panel are unchanged.
\<close>

theorem manual_fallback:
  "trace (manualPresent e s) =
     trace s @ [Fetch (api_request e ''/api/attendance/complete'' (manual_opts (token s)))] \<and>
   req_url (api_request e ''/api/attendance/complete'' (manual_opts (token s))) =
     api_base e @ ''/api/attendance/complete'' \<and>
   req_method (api_request e ''/api/attendance/complete'' (manual_opts (token s))) = ''POST'' \<and>
   req_body (api_request e ''/api/attendance/complete'' (manual_opts (token s))) =
     Some (Json (JObj [(''manual'', JBool True)])) \<and>
   cameras (manualPresent e s) = cameras s \<and>
   video (manualPresent e s) = video s \<and>
   sessionId (manualPresent e s) = sessionId s \<and>
   streaming (manualPresent e s) = streaming s \<and>
   result (manualPresent e s) =
     (case fetch_result e (length (trace s)) of
        Inl x \<Rightarrow> result s
      | Inr res \<Rightarrow> (case api_response res of Inl x \<Rightarrow> result s | Inr data \<Rightarrow> data)) \<and>
   display e (manualPresent e s) =
     (case fst (api e ''/api/attendance/complete'' (manual_opts (token s))
                  (s\<lparr>status := ''Recording manual presence...''\<rparr>)) of
        Inl x \<Rightarrow> display e s
      | Inr data \<Rightarrow>
          (if truthy_value data then
             Panel (property ''userName'' data)
                   (date_string e (property ''timestamp'' data))
                   (if truthy (property ''emotion'' data) then property ''emotion'' data
                    else JStr ''manual'')
           else Bare data))"
  by (simp add: manualPresent_def api_def Let_def api_request_def manual_opts_def display_def
      render_result_def split: sum.splits)

theorem manual_fallback_witness:
  "fst (api happy_backend ''/api/attendance/complete'' (manual_opts (token page))
          (page\<lparr>status := ''Recording manual presence...''\<rparr>)) = Inr (Value recorded_happy) \<and>
   truthy_value (Value recorded_happy) \<and>
   truthy (property ''emotion'' (Value recorded_happy)) \<and>
   display happy_backend (manualPresent happy_backend page) =
     Panel (JStr ''Alice'') ''1/1/2024, 12:00:00 AM'' (JStr ''happy'') \<and>
   trace (manualPresent happy_backend page) =
     [Fetch (api_request happy_backend ''/api/attendance/complete'' (manual_opts (Some ''tok'')))]"
proof -
  have a: "fst (api happy_backend ''/api/attendance/complete'' (manual_opts (token page))
          (page\<lparr>status := ''Recording manual presence...''\<rparr>)) = Inr (Value recorded_happy)"
    by (simp add: scenario_defs fst_api api_response_def)
  have b: "truthy_value (Value recorded_happy)" "truthy (property ''emotion'' (Value recorded_happy))"
    "property ''emotion'' (Value recorded_happy) = JStr ''happy''"
    "property ''userName'' (Value recorded_happy) = JStr ''Alice''"
    "date_string happy_backend (property ''timestamp'' (Value recorded_happy)) = ''1/1/2024, 12:00:00 AM''"
    by (simp_all add: scenario_defs)
  have c: "token page = Some ''tok''" "trace page = []"
    by (simp_all add: scenario_defs)
  show ?thesis
    using manual_fallback [of happy_backend page] a b c by simp
qed

end
